theory Spec2Isabelle
  imports Complex_Main "HOL-Library.Product_Lexorder"
begin

section \<open>Data model\<close>

text \<open>
  Python exceptions that the modelled code can raise and that are not caught where they
  arise.
\<close>

datatype py_error = KeyError | ValueError

text \<open>
  A \<^verbatim>\<open>datetime\<close> value. \<open>tzinfo\<close> is the UTC offset in seconds of an aware value and
  \<open>None\<close> for a naive one. Naive values compare field by field, most significant first.
\<close>

record datetime =
  year :: nat
  month :: nat
  day :: nat
  hour :: nat
  minute :: nat
  second :: nat
  microsecond :: nat
  tzinfo :: "int option"

type_synonym dt_tuple = "nat \<times> nat \<times> nat \<times> nat \<times> nat \<times> nat \<times> nat"

definition dt_key :: "datetime \<Rightarrow> dt_tuple" where
  "dt_key d = (year d, month d, day d, hour d, minute d, second d, microsecond d)"

text \<open>
  One row of the data set: the six canonical columns. \<open>None\<close> is a missing cell
  (\<^verbatim>\<open>NaN\<close>, \<^verbatim>\<open>NaT\<close> or \<^verbatim>\<open>None\<close>). A numeric cell is the real number its 64-bit float
  denotes. The mean and the deviation, which pandas computes with rounding, are not
  computed by the model but taken as parameters (see below).
\<close>

record observation =
  timestamp :: "datetime option"
  latitude :: "real option"
  longitude :: "real option"
  temperature :: "real option"
  salinity :: "real option"
  odo :: "real option"

definition required_cols :: "string list" where
  "required_cols = [''timestamp'', ''latitude'', ''longitude'', ''temperature'', ''salinity'', ''odo'']"

definition row_complete :: "observation \<Rightarrow> bool" where
  "row_complete r \<longleftrightarrow> timestamp r \<noteq> None \<and> latitude r \<noteq> None \<and> longitude r \<noteq> None
     \<and> temperature r \<noteq> None \<and> salinity r \<noteq> None \<and> odo r \<noteq> None"

text \<open>The numeric cell of a row under a column name.\<close>

definition col_val :: "string \<Rightarrow> observation \<Rightarrow> real option" where
  "col_val c r =
     (if c = ''temperature'' then temperature r
      else if c = ''salinity'' then salinity r
      else if c = ''odo'' then odo r
      else if c = ''latitude'' then latitude r
      else if c = ''longitude'' then longitude r
      else None)"

text \<open>
  A \<^verbatim>\<open>DataFrame\<close> whose columns are among the canonical ones: the column labels it has and
  its rows. A cell under a label the frame does not have is not part of the frame.
\<close>

record frame =
  columns :: "string list"
  rows :: "observation list"

definition frame_empty :: "frame \<Rightarrow> bool" where
  "frame_empty df \<longleftrightarrow> columns df = [] \<or> rows df = []"

section \<open>Statistics of pandas\<close>

text \<open>
  \<^verbatim>\<open>Series.mean\<close> and \<^verbatim>\<open>Series.std\<close> over the non-null values of a column are
  computed by pandas in 64-bit floating point, with rounding at every step. The model
  does not compute them in exact arithmetic: they are the two fields of a parameter
  \<open>num\<close>, with \<open>None\<close> for \<^verbatim>\<open>NaN\<close>, so that a statement about \<open>series_std num vs\<close> is a
  statement about the deviation the library computes.
\<close>

record series_ops =
  series_mean :: "real list \<Rightarrow> real option"
  series_std :: "real list \<Rightarrow> real option"

definition non_null :: "'a option list \<Rightarrow> 'a list" where
  "non_null cs = concat (map (\<lambda>c. case c of None \<Rightarrow> [] | Some v \<Rightarrow> [v]) cs)"

section \<open>The database manager (data/water\_quality\_db.py)\<close>

text \<open>
  The class attributes of \<^verbatim>\<open>WaterQualityDB\<close>: the three report counters and the
  collection of inserted documents, in insertion order. Every inserted document has the
  six canonical keys, so a document is an \<open>observation\<close>.
\<close>

record db_state =
  original_rows :: int
  removed_outliers :: int
  remaining_rows :: int
  collection :: "observation list"

definition initial_state :: db_state where
  "initial_state = \<lparr>original_rows = 0, removed_outliers = 0, remaining_rows = 0, collection = []\<rparr>"

text \<open>
  \<^verbatim>\<open>pd.concat(all_data, ignore_index=True)\<close>: the union of the column labels, the rows of
  the frames in order, each row with missing cells under the labels its frame lacks.
\<close>

definition reindex :: "string list \<Rightarrow> observation \<Rightarrow> observation" where
  "reindex cs r =
     \<lparr>timestamp = (if ''timestamp'' \<in> set cs then timestamp r else None),
      latitude = (if ''latitude'' \<in> set cs then latitude r else None),
      longitude = (if ''longitude'' \<in> set cs then longitude r else None),
      temperature = (if ''temperature'' \<in> set cs then temperature r else None),
      salinity = (if ''salinity'' \<in> set cs then salinity r else None),
      odo = (if ''odo'' \<in> set cs then odo r else None)\<rparr>"

definition pd_concat :: "frame list \<Rightarrow> frame" where
  "pd_concat fs =
     \<lparr>columns = remdups (concat (map columns fs)),
      rows = concat (map (\<lambda>f. map (reindex (columns f)) (rows f)) fs)\<rparr>"

text \<open>
  \<^verbatim>\<open>dropna(subset=required_cols, how='any')\<close> raises \<^verbatim>\<open>KeyError\<close> when a label of the
  subset is not a column.
\<close>

definition dropna_required :: "frame \<Rightarrow> py_error + frame" where
  "dropna_required df =
     (if set required_cols \<subseteq> set (columns df)
      then Inr (df\<lparr>rows := filter row_complete (rows df)\<rparr>)
      else Inl KeyError)"

text \<open>
  \<^verbatim>\<open>sort_values('timestamp')\<close>: ascending, missing timestamps last. The model sorts
  stably; the theorems below use only that the result is a sorted permutation.
\<close>

definition pd_ts_key :: "observation \<Rightarrow> nat \<times> dt_tuple" where
  "pd_ts_key r = (case timestamp r of None \<Rightarrow> (1, (0, 0, 0, 0, 0, 0, 0)) | Some d \<Rightarrow> (0, dt_key d))"

definition sort_values_timestamp :: "frame \<Rightarrow> frame" where
  "sort_values_timestamp df = df\<lparr>rows := sort_key pd_ts_key (rows df)\<rparr>"

text \<open>
  \<^verbatim>\<open>_load_and_standardize_data\<close> from line 114 on. The argument \<open>all_data\<close> is the list
  of per-file frames the loop over the source files has built (each already renamed,
  projected on the canonical columns and coerced).
\<close>

definition load_and_standardize_data :: "frame list \<Rightarrow> db_state \<Rightarrow> py_error + (db_state \<times> frame)" where
  "load_and_standardize_data all_data st =
     (if all_data = [] then Inr (st, \<lparr>columns = [], rows = []\<rparr>)
      else
        let combined_df = pd_concat all_data;
            st' = st\<lparr>original_rows := int (length (rows combined_df))\<rparr>
        in case dropna_required combined_df of
             Inl e \<Rightarrow> Inl e
           | Inr df \<Rightarrow> Inr (st', sort_values_timestamp df))"

text \<open>
  The z-score column of \<^verbatim>\<open>_clean_outliers\<close> for one numeric column:
  \<^verbatim>\<open>np.where(std == 0, 0.0, ((df[col] - mean) / std).abs())\<close>. A \<^verbatim>\<open>NaN\<close> score is \<open>None\<close>
  and exceeds no threshold.
\<close>

definition z_score :: "real option \<Rightarrow> real option \<Rightarrow> real option \<Rightarrow> real option" where
  "z_score mean std v =
     (if std = Some 0 then Some 0
      else case (v, mean, std) of
             (Some x, Some m, Some s) \<Rightarrow> Some (\<bar>(x - m) / s\<bar>)
           | _ \<Rightarrow> None)"

definition exceeds :: "real option \<Rightarrow> real \<Rightarrow> bool" where
  "exceeds z thr = (case z of None \<Rightarrow> False | Some x \<Rightarrow> x > thr)"

definition numeric_cols :: "string list" where
  "numeric_cols = [''temperature'', ''salinity'', ''odo'']"

definition col_stats :: "series_ops \<Rightarrow> frame \<Rightarrow> string \<Rightarrow> string \<times> real option \<times> real option" where
  "col_stats num df c =
     (let vs = non_null (map (col_val c) (rows df)) in (c, series_mean num vs, series_std num vs))"

definition outlier_mask :: "(string \<times> real option \<times> real option) list \<Rightarrow> real \<Rightarrow> observation \<Rightarrow> bool" where
  "outlier_mask stats thr r =
     list_ex (\<lambda>(c, mean, std). exceeds (z_score mean std (col_val c r)) thr) stats"

definition clean_outliers :: "series_ops \<Rightarrow> db_state \<Rightarrow> frame \<Rightarrow> real \<Rightarrow> db_state \<times> frame" where
  "clean_outliers num st df z_score_threshold =
     (if frame_empty df then (st, df)
      else
        let stats = map (col_stats num df) (filter (\<lambda>c. c \<in> set (columns df)) numeric_cols);
            df_cleaned = df\<lparr>rows := filter (\<lambda>r. \<not> outlier_mask stats z_score_threshold r) (rows df)\<rparr>
        in (st\<lparr>removed_outliers := original_rows st - int (length (rows df_cleaned)),
               remaining_rows := int (length (rows df_cleaned))\<rparr>,
            df_cleaned))"

text \<open>\<^verbatim>\<open>_insert_data\<close>: an empty frame inserts nothing.\<close>

definition insert_data :: "db_state \<Rightarrow> frame \<Rightarrow> db_state" where
  "insert_data st df =
     (if frame_empty df then st else st\<lparr>collection := collection st @ rows df\<rparr>)"

text \<open>
  \<^verbatim>\<open>WaterQualityDB.__init__\<close>: the pipeline runs only on an empty collection. The
  threshold is the default \<^verbatim>\<open>3.0\<close> of \<^verbatim>\<open>_clean_outliers\<close>.
\<close>

definition init :: "series_ops \<Rightarrow> frame list \<Rightarrow> db_state \<Rightarrow> py_error + db_state" where
  "init num all_data st =
     (if length (collection st) = 0 then
        case load_and_standardize_data all_data st of
          Inl e \<Rightarrow> Inl e
        | Inr (st1, df) \<Rightarrow>
            (case clean_outliers num st1 df 3 of (st2, df2) \<Rightarrow> Inr (insert_data st2 df2))
      else Inr st)"

section \<open>Python built-ins used by the API\<close>

text \<open>
  \<^verbatim>\<open>int(s)\<close> on a string: surrounding whitespace is stripped, one sign is allowed, the
  digits may be separated by single underscores. \<open>None\<close> is \<^verbatim>\<open>ValueError\<close>. Characters
  are bytes here, so only the ASCII digits are digits.
\<close>

definition py_space :: "char \<Rightarrow> bool" where
  "py_space c \<longleftrightarrow> c \<in> set [CHR '' '', CHR 0x09, CHR 0x0A, CHR 0x0B, CHR 0x0C, CHR 0x0D,
     CHR 0x1C, CHR 0x1D, CHR 0x1E, CHR 0x1F]"

definition strip :: "string \<Rightarrow> string" where
  "strip s = rev (dropWhile py_space (rev (dropWhile py_space s)))"

definition is_digit :: "char \<Rightarrow> bool" where
  "is_digit c \<longleftrightarrow> c \<in> set ''0123456789''"

definition digit_val :: "char \<Rightarrow> nat" where
  "digit_val c = length (takeWhile (\<lambda>d. d \<noteq> c) ''0123456789'')"

fun int_body :: "string \<Rightarrow> bool" where
  "int_body [] = False"
| "int_body [c] = is_digit c"
| "int_body (c # d # cs) =
     (is_digit c \<and> (if d = CHR ''_'' then int_body cs else int_body (d # cs)))"

definition digits_value :: "string \<Rightarrow> nat" where
  "digits_value s = foldl (\<lambda>a c. 10 * a + digit_val c) 0 (filter is_digit s)"

definition py_int :: "string \<Rightarrow> int option" where
  "py_int s =
     (case strip s of
        [] \<Rightarrow> None
      | c # cs \<Rightarrow>
          if c = CHR ''-'' then (if int_body cs then Some (- int (digits_value cs)) else None)
          else if c = CHR ''+'' then (if int_body cs then Some (int (digits_value cs)) else None)
          else if int_body (c # cs) then Some (int (digits_value (c # cs))) else None)"

text \<open>The request parameters: \<^verbatim>\<open>request.args\<close>, from parameter name to its value.\<close>

type_synonym args = "string \<rightharpoonup> string"

text \<open>\<^verbatim>\<open>int(args.get(key, default))\<close> with an integer default.\<close>

definition arg_int :: "args \<Rightarrow> string \<Rightarrow> int \<Rightarrow> int option" where
  "arg_int a key dflt = (case a key of None \<Rightarrow> Some dflt | Some s \<Rightarrow> py_int s)"

text \<open>
  String methods used by \<^verbatim>\<open>safe_iso_to_datetime\<close>: \<^verbatim>\<open>rsplit('.', 1)\<close> on a string that
  contains a dot, \<^verbatim>\<open>find\<close> and \<^verbatim>\<open>rfind\<close> of a character that occurs, \<^verbatim>\<open>replace(c, '')\<close>
  and \<^verbatim>\<open>zfill\<close>, which pads on the left, after a leading sign.
\<close>

definition rsplit_dot :: "string \<Rightarrow> string \<times> string" where
  "rsplit_dot s =
     (let tail = rev (takeWhile (\<lambda>c. c \<noteq> CHR ''.'') (rev s))
      in (take (length s - length tail - 1) s, tail))"

definition find_char :: "char \<Rightarrow> string \<Rightarrow> nat" where
  "find_char c s = length (takeWhile (\<lambda>d. d \<noteq> c) s)"

definition rfind_char :: "char \<Rightarrow> string \<Rightarrow> nat" where
  "rfind_char c s = length s - 1 - length (takeWhile (\<lambda>d. d \<noteq> c) (rev s))"

definition remove_char :: "char \<Rightarrow> string \<Rightarrow> string" where
  "remove_char c s = filter (\<lambda>d. d \<noteq> c) s"

definition zfill :: "nat \<Rightarrow> string \<Rightarrow> string" where
  "zfill w s =
     (if w \<le> length s then s
      else case s of
             [] \<Rightarrow> replicate w (CHR ''0'')
           | c # cs \<Rightarrow>
               if c = CHR ''+'' \<or> c = CHR ''-''
               then c # replicate (w - length s) (CHR ''0'') @ cs
               else replicate (w - length s) (CHR ''0'') @ s)"

section \<open>The query API (api/water\_quality\_api.py)\<close>

text \<open>
  \<^verbatim>\<open>safe_iso_to_datetime\<close>. The library parser \<^verbatim>\<open>datetime.fromisoformat\<close> is the
  parameter \<open>fromisoformat\<close>, \<open>None\<close> for its \<^verbatim>\<open>ValueError\<close>: which strings it accepts
  depends on the Python version.
\<close>

definition naive :: "datetime \<Rightarrow> datetime" where
  "naive dt = dt\<lparr>tzinfo := None\<rparr>"

definition split_micro_tz :: "string \<Rightarrow> string \<times> string" where
  "split_micro_tz micro_tz_part =
     (if CHR ''Z'' \<in> set micro_tz_part then (remove_char (CHR ''Z'') micro_tz_part, ''Z'')
      else if CHR ''+'' \<in> set micro_tz_part then
        (let tz_index = find_char (CHR ''+'') micro_tz_part
         in (take tz_index micro_tz_part, drop tz_index micro_tz_part))
      else if CHR ''-'' \<in> set micro_tz_part \<and> CHR '':'' \<in> set micro_tz_part then
        (let tz_index = rfind_char (CHR ''-'') micro_tz_part
         in (take tz_index micro_tz_part, drop tz_index micro_tz_part))
      else (micro_tz_part, []))"

definition clean_iso_string :: "string \<Rightarrow> string" where
  "clean_iso_string iso_string =
     (case rsplit_dot iso_string of
        (base_part, micro_tz_part) \<Rightarrow>
          (case split_micro_tz micro_tz_part of
             (micro_part, tz_suffix) \<Rightarrow>
               base_part @ ''.'' @ zfill 6 (take 6 micro_part) @ tz_suffix))"

definition safe_iso_to_datetime :: "(string \<Rightarrow> datetime option) \<Rightarrow> string \<Rightarrow> datetime option" where
  "safe_iso_to_datetime fromisoformat iso_string =
     (case fromisoformat iso_string of
        Some dt \<Rightarrow> Some (naive dt)
      | None \<Rightarrow>
          if CHR ''.'' \<in> set iso_string then
            (case fromisoformat (clean_iso_string iso_string) of
               Some dt \<Rightarrow> Some (naive dt)
             | None \<Rightarrow> None)
          else None)"

text \<open>
  The filter dictionary of \<^verbatim>\<open>build_mongo_query\<close>: for each of the four filtered fields
  an optional \<^verbatim>\<open>$gte\<close> and an optional \<^verbatim>\<open>$lte\<close> bound.
\<close>

record mongo_query =
  ts_gte :: "datetime option"
  ts_lte :: "datetime option"
  temp_gte :: "real option"
  temp_lte :: "real option"
  sal_gte :: "real option"
  sal_lte :: "real option"
  odo_gte :: "real option"
  odo_lte :: "real option"

text \<open>
  The bounds of one numeric field: \<^verbatim>\<open>float\<close> of the strings present. \<^verbatim>\<open>float\<close> on a
  string is the parameter \<open>py_float\<close>, \<open>None\<close> for its \<^verbatim>\<open>ValueError\<close>; the error is the
  message of the field.
\<close>

definition numeric_bounds ::
  "(string \<Rightarrow> real option) \<Rightarrow> args \<Rightarrow> string \<Rightarrow> string \<Rightarrow> string + (real option \<times> real option)" where
  "numeric_bounds py_float a min_key max_key =
     (let bad = Inl (''Invalid value for '' @ min_key @ '' or '' @ max_key @ ''. Must be a number.'')
      in case a min_key of
           None \<Rightarrow>
             (case a max_key of
                None \<Rightarrow> Inr (None, None)
              | Some hs \<Rightarrow> (case py_float hs of None \<Rightarrow> bad | Some h \<Rightarrow> Inr (None, Some h)))
         | Some ls \<Rightarrow>
             (case py_float ls of
                None \<Rightarrow> bad
              | Some l \<Rightarrow>
                  (case a max_key of
                     None \<Rightarrow> Inr (Some l, None)
                   | Some hs \<Rightarrow>
                       (case py_float hs of None \<Rightarrow> bad | Some h \<Rightarrow> Inr (Some l, Some h)))))"

definition time_bound ::
  "(string \<Rightarrow> datetime option) \<Rightarrow> args \<Rightarrow> string \<Rightarrow> string + datetime option" where
  "time_bound fromisoformat a key =
     (case a key of
        None \<Rightarrow> Inr None
      | Some s \<Rightarrow>
          (case safe_iso_to_datetime fromisoformat s of
             None \<Rightarrow> Inl (''Invalid '' @ [CHR 0x27] @ key @ [CHR 0x27] @ '' date format.'')
           | Some dt \<Rightarrow> Inr (Some dt)))"

definition build_mongo_query ::
  "(string \<Rightarrow> datetime option) \<Rightarrow> (string \<Rightarrow> real option) \<Rightarrow> args \<Rightarrow> string + mongo_query" where
  "build_mongo_query fromisoformat py_float a =
     (case time_bound fromisoformat a ''start'' of
        Inl e \<Rightarrow> Inl e
      | Inr start_dt \<Rightarrow>
     (case time_bound fromisoformat a ''end'' of
        Inl e \<Rightarrow> Inl e
      | Inr end_dt \<Rightarrow>
     (case numeric_bounds py_float a ''min_temp'' ''max_temp'' of
        Inl e \<Rightarrow> Inl e
      | Inr (t_lo, t_hi) \<Rightarrow>
     (case numeric_bounds py_float a ''min_sal'' ''max_sal'' of
        Inl e \<Rightarrow> Inl e
      | Inr (s_lo, s_hi) \<Rightarrow>
     (case numeric_bounds py_float a ''min_odo'' ''max_odo'' of
        Inl e \<Rightarrow> Inl e
      | Inr (o_lo, o_hi) \<Rightarrow>
          Inr \<lparr>ts_gte = start_dt, ts_lte = end_dt, temp_gte = t_lo, temp_lte = t_hi,
               sal_gte = s_lo, sal_lte = s_hi, odo_gte = o_lo, odo_lte = o_hi\<rparr>)))))"

text \<open>
  Python values that occur in documents and in the bodies given to \<^verbatim>\<open>jsonify\<close>. A
  dictionary is an association list in key order. A response is the status code with
  the body, or an exception that leaves the handler uncaught.
\<close>

datatype pyval =
    PNone
  | PInt int
  | PFloat real
  | PStr string
  | PDatetime datetime
  | PList "pyval list"
  | PDict "(string \<times> pyval) list"

datatype response = Response nat pyval | Unhandled py_error

definition error_body :: "string \<Rightarrow> pyval" where
  "error_body msg = PDict [(''error'', PStr msg)]"

text \<open>\<^verbatim>\<open>datetime.isoformat()\<close>, for \<^verbatim>\<open>convert_decimals_to_float\<close>.\<close>

fun digits :: "nat \<Rightarrow> nat \<Rightarrow> string" where
  "digits 0 n = []"
| "digits (Suc w) n = digits w (n div 10) @ [''0123456789'' ! (n mod 10)]"

definition iso_offset :: "int \<Rightarrow> string" where
  "iso_offset off =
     (let a = nat \<bar>off\<bar>
      in (if off < 0 then ''-'' else ''+'') @ digits 2 (a div 3600) @ '':'' @ digits 2 (a div 60 mod 60)
         @ (if a mod 60 = 0 then [] else '':'' @ digits 2 (a mod 60)))"

definition isoformat :: "datetime \<Rightarrow> string" where
  "isoformat d =
     digits 4 (year d) @ ''-'' @ digits 2 (month d) @ ''-'' @ digits 2 (day d) @ ''T''
     @ digits 2 (hour d) @ '':'' @ digits 2 (minute d) @ '':'' @ digits 2 (second d)
     @ (if microsecond d = 0 then [] else ''.'' @ digits 6 (microsecond d))
     @ (case tzinfo d of None \<Rightarrow> [] | Some off \<Rightarrow> iso_offset off)"

definition convert_decimals_to_float :: "(string \<times> pyval) list \<Rightarrow> (string \<times> pyval) list" where
  "convert_decimals_to_float item =
     map (\<lambda>(key, v). (key, case v of PDatetime d \<Rightarrow> PStr (isoformat d) | _ \<Rightarrow> v)) item"

subsection \<open>The collection of mongomock\<close>

text \<open>
  A stored document without its \<^verbatim>\<open>_id\<close>, and an inclusion projection on a list of keys.
\<close>

definition opt_float :: "real option \<Rightarrow> pyval" where
  "opt_float c = (case c of None \<Rightarrow> PNone | Some v \<Rightarrow> PFloat v)"

definition doc_of :: "observation \<Rightarrow> (string \<times> pyval) list" where
  "doc_of r =
     [(''timestamp'', case timestamp r of None \<Rightarrow> PNone | Some d \<Rightarrow> PDatetime d),
      (''latitude'', opt_float (latitude r)),
      (''longitude'', opt_float (longitude r)),
      (''temperature'', opt_float (temperature r)),
      (''salinity'', opt_float (salinity r)),
      (''odo'', opt_float (odo r))]"

definition project :: "string list \<Rightarrow> (string \<times> pyval) list \<Rightarrow> (string \<times> pyval) list" where
  "project keys doc = filter (\<lambda>(key, v). key \<in> set keys) doc"

text \<open>
  A range condition \<^verbatim>\<open>{'$gte': lo, '$lte': hi}\<close> on a field: no condition when both
  bounds are absent; a missing value satisfies no bound.
\<close>

definition in_range :: "('a \<Rightarrow> 'b::linorder) \<Rightarrow> 'a option \<Rightarrow> 'a option \<Rightarrow> 'a option \<Rightarrow> bool" where
  "in_range key lo hi v =
     (if lo = None \<and> hi = None then True
      else case v of
             None \<Rightarrow> False
           | Some x \<Rightarrow>
               (case lo of None \<Rightarrow> True | Some l \<Rightarrow> key l \<le> key x)
               \<and> (case hi of None \<Rightarrow> True | Some h \<Rightarrow> key x \<le> key h))"

definition matches :: "mongo_query \<Rightarrow> observation \<Rightarrow> bool" where
  "matches q r \<longleftrightarrow>
     in_range dt_key (ts_gte q) (ts_lte q) (timestamp r)
     \<and> in_range id (temp_gte q) (temp_lte q) (temperature r)
     \<and> in_range id (sal_gte q) (sal_lte q) (salinity r)
     \<and> in_range id (odo_gte q) (odo_lte q) (odo r)"

definition count_documents :: "observation list \<Rightarrow> mongo_query \<Rightarrow> nat" where
  "count_documents coll q = length (filter (matches q) coll)"

text \<open>
  \<^verbatim>\<open>find(query).skip(skip).limit(limit).sort('timestamp', 1)\<close>: the cursor sorts the
  matching documents first (stably, a missing timestamp before every date), then skips,
  then limits; a limit of \<open>0\<close> is no limit.
\<close>

definition mongo_ts_key :: "observation \<Rightarrow> nat \<times> dt_tuple" where
  "mongo_ts_key r = (case timestamp r of None \<Rightarrow> (0, (0, 0, 0, 0, 0, 0, 0)) | Some d \<Rightarrow> (1, dt_key d))"

definition find_sorted :: "observation list \<Rightarrow> mongo_query \<Rightarrow> nat \<Rightarrow> nat \<Rightarrow> observation list" where
  "find_sorted coll q skip limit =
     (let found = drop skip (sort_key mongo_ts_key (filter (matches q) coll))
      in if limit = 0 then found else take limit found)"

subsection \<open>Endpoints\<close>

definition health_check :: response where
  "health_check = Response 200 (PDict [(''status'', PStr ''ok'')])"

definition observation_item :: "observation \<Rightarrow> pyval" where
  "observation_item r = PDict (convert_decimals_to_float (doc_of r))"

definition get_observations ::
  "(string \<Rightarrow> datetime option) \<Rightarrow> (string \<Rightarrow> real option) \<Rightarrow> observation list option \<Rightarrow> args \<Rightarrow> response" where
  "get_observations fromisoformat py_float db_collection a =
     (case db_collection of
        None \<Rightarrow> Response 500 (error_body ''Database not initialized.'')
      | Some coll \<Rightarrow>
     (case build_mongo_query fromisoformat py_float a of
        Inl e \<Rightarrow> Response 400 (error_body e)
      | Inr query \<Rightarrow>
     (case arg_int a ''limit'' 100 of
        None \<Rightarrow> Response 400 (error_body ''Limit and skip must be valid integers.'')
      | Some l \<Rightarrow>
     (case arg_int a ''skip'' 0 of
        None \<Rightarrow> Response 400 (error_body ''Limit and skip must be valid integers.'')
      | Some skip \<Rightarrow>
          (let limit = min l 1000
           in if limit < 0 \<or> skip < 0
              then Response 400 (error_body ''Limit and skip must be non-negative.'')
              else
                let total_count = count_documents coll query;
                    items = map observation_item (find_sorted coll query (nat skip) (nat limit))
                in Response 200 (PDict [(''count'', PInt (int total_count)), (''items'', PList items)]))))))"

text \<open>
  \<^verbatim>\<open>Series.quantile\<close> with linear interpolation, \<^verbatim>\<open>NaN\<close> (\<open>None\<close>) on no value, and
  the minimum and maximum.
\<close>

definition pd_quantile :: "real list \<Rightarrow> real \<Rightarrow> real option" where
  "pd_quantile vs q =
     (if vs = [] then None
      else let s = sort vs;
               h = real (length s - 1) * q;
               lo = nat \<lfloor>h\<rfloor>;
               hi = min (lo + 1) (length s - 1)
           in Some (s ! lo + (h - real lo) * (s ! hi - s ! lo)))"

definition field_stats :: "series_ops \<Rightarrow> real list \<Rightarrow> pyval" where
  "field_stats num series =
     (if series = [] then
        PDict [(''count'', PInt 0), (''mean'', PNone), (''min'', PNone), (''max'', PNone),
               (''25%'', PNone), (''50%'', PNone), (''75%'', PNone)]
      else
        PDict [(''count'', PInt (int (length series))),
               (''mean'', opt_float (series_mean num series)),
               (''min'', PFloat (Min (set series))),
               (''max'', PFloat (Max (set series))),
               (''25%'', opt_float (pd_quantile series (1/4))),
               (''50%'', opt_float (pd_quantile series (1/2))),
               (''75%'', opt_float (pd_quantile series (3/4)))])"

definition get_stats :: "series_ops \<Rightarrow> observation list option \<Rightarrow> response" where
  "get_stats num db_collection =
     (case db_collection of
        None \<Rightarrow> Response 500 (error_body ''Database not initialized.'')
      | Some coll \<Rightarrow>
          Response 200
            (PDict (if coll = [] then []
                    else map (\<lambda>c. (c, field_stats num (non_null (map (col_val c) coll)))) numeric_cols)))"

text \<open>
  \<^verbatim>\<open>find_outliers\<close>. The frame \<open>df\<close> holds the projected documents; its rows are kept as
  observations and turned into the records of the response by \<open>outlier_record\<close>, which
  applies the projection of the query and the conversion. A frame built from no
  document has no column, so that \<^verbatim>\<open>dropna(subset=[field])\<close> raises \<^verbatim>\<open>KeyError\<close>, outside
  every \<^verbatim>\<open>try\<close>.
\<close>

definition outlier_record :: "string \<Rightarrow> observation \<Rightarrow> pyval" where
  "outlier_record field r =
     PDict (convert_decimals_to_float
              (project [field, ''timestamp'', ''latitude'', ''longitude''] (doc_of r)))"

definition zscore_mask :: "series_ops \<Rightarrow> real list \<Rightarrow> real \<Rightarrow> real \<Rightarrow> bool" where
  "zscore_mask num vs k v =
     (case (series_mean num vs, series_std num vs) of
        (Some mean, Some std) \<Rightarrow> if std \<noteq> 0 then \<bar>(v - mean) / std\<bar> > k else False
      | _ \<Rightarrow> False)"

definition iqr_mask :: "real list \<Rightarrow> real \<Rightarrow> real \<Rightarrow> bool" where
  "iqr_mask vs k v =
     (case (pd_quantile vs (1/4), pd_quantile vs (3/4)) of
        (Some Q1, Some Q3) \<Rightarrow>
          (let IQR = Q3 - Q1;
               lower_bound = Q1 - k * IQR;
               upper_bound = Q3 + k * IQR
           in v < lower_bound \<or> v > upper_bound)
      | _ \<Rightarrow> False)"

text \<open>
  The frame operations of \<^verbatim>\<open>find_outliers\<close>: \<^verbatim>\<open>df.dropna(subset=[field])\<close>, the column
  \<^verbatim>\<open>df[field]\<close> of the remaining rows, and the selection \<^verbatim>\<open>df[outlier_mask]\<close> by a mask
  computed from the value of the field.
\<close>

definition dropna_field :: "string \<Rightarrow> observation list \<Rightarrow> observation list" where
  "dropna_field field df = filter (\<lambda>r. col_val field r \<noteq> None) df"

definition field_values :: "string \<Rightarrow> observation list \<Rightarrow> real list" where
  "field_values field df = non_null (map (col_val field) df)"

definition select_rows :: "(real \<Rightarrow> bool) \<Rightarrow> string \<Rightarrow> observation list \<Rightarrow> observation list" where
  "select_rows flag field df =
     filter (\<lambda>r. case col_val field r of None \<Rightarrow> False | Some v \<Rightarrow> flag v) df"

definition outliers_body :: "pyval list \<Rightarrow> pyval" where
  "outliers_body outlier_records =
     PDict [(''outliers'', PList outlier_records), (''count'', PInt (int (length outlier_records)))]"

definition find_outliers ::
  "series_ops \<Rightarrow> (string \<Rightarrow> real option) \<Rightarrow> observation list option \<Rightarrow> args \<Rightarrow> response" where
  "find_outliers num py_float db_collection a =
     (case db_collection of
        None \<Rightarrow> Response 500 (error_body ''Database not initialized.'')
      | Some coll \<Rightarrow>
     (let method = (case a ''method'' of None \<Rightarrow> ''iqr'' | Some m \<Rightarrow> m)
      in case (case a ''k'' of
                 None \<Rightarrow> Some (if method = ''iqr'' then 3/2 else 3)
               | Some s \<Rightarrow> py_float s) of
           None \<Rightarrow> Response 400 (error_body (''Invalid factor '' @ [CHR 0x27] @ ''k'' @ [CHR 0x27] @ ''.''))
         | Some k_factor \<Rightarrow>
     (case a ''field'' of
        None \<Rightarrow> Response 400 (error_body ''Invalid field specified.'')
      | Some field \<Rightarrow>
          if field \<notin> set numeric_cols then Response 400 (error_body ''Invalid field specified.'')
          else if coll = [] then Unhandled KeyError
          else
            let df = dropna_field field coll;
                vs = field_values field df
            in if df = [] then Response 200 (PDict [(''outliers'', PList [])])
               else if method = ''zscore'' then
                 Response 200 (outliers_body (map (outlier_record field)
                   (select_rows (zscore_mask num vs k_factor) field df)))
               else if method = ''iqr'' then
                 Response 200 (outliers_body (map (outlier_record field)
                   (select_rows (iqr_mask vs k_factor) field df)))
               else Response 400 (error_body
                      (''Invalid outlier method. Use '' @ [CHR 0x27] @ ''iqr'' @ [CHR 0x27] @ '' or ''
                       @ [CHR 0x27] @ ''zscore'' @ [CHR 0x27] @ ''.'')))))"

subsection \<open>The serving process\<close>

text \<open>
  A request to one of the four routes. The handlers read the collection of the database
  state and nothing else; \<open>serve\<close> answers a sequence of requests against a state and
  returns the state after them.
\<close>

datatype request = Health | Observations args | Stats | Outliers args

definition handle ::
  "series_ops \<Rightarrow> (string \<Rightarrow> datetime option) \<Rightarrow> (string \<Rightarrow> real option) \<Rightarrow> db_state \<Rightarrow> request
   \<Rightarrow> db_state \<times> response" where
  "handle num fromisoformat py_float st rq =
     (st, case rq of
            Health \<Rightarrow> health_check
          | Observations a \<Rightarrow> get_observations fromisoformat py_float (Some (collection st)) a
          | Stats \<Rightarrow> get_stats num (Some (collection st))
          | Outliers a \<Rightarrow> find_outliers num py_float (Some (collection st)) a)"

fun serve ::
  "series_ops \<Rightarrow> (string \<Rightarrow> datetime option) \<Rightarrow> (string \<Rightarrow> real option) \<Rightarrow> db_state \<Rightarrow> request list
   \<Rightarrow> db_state \<times> response list" where
  "serve num fromisoformat py_float st [] = (st, [])"
| "serve num fromisoformat py_float st (rq # rqs) =
     (case handle num fromisoformat py_float st rq of
        (st1, resp) \<Rightarrow>
          (case serve num fromisoformat py_float st1 rqs of (st2, resps) \<Rightarrow> (st2, resp # resps)))"

section \<open>Observers and example data\<close>

text \<open>The \<^verbatim>\<open>items\<close> list of a response body, when it has one.\<close>

definition response_items :: "response \<Rightarrow> pyval list option" where
  "response_items resp =
     (case resp of
        Response code (PDict kvs) \<Rightarrow>
          (case map_of kvs ''items'' of Some (PList xs) \<Rightarrow> Some xs | _ \<Rightarrow> None)
      | _ \<Rightarrow> None)"

text \<open>The keys of a record of a response.\<close>

definition record_keys :: "pyval \<Rightarrow> string set" where
  "record_keys v = (case v of PDict kvs \<Rightarrow> set (map fst kvs) | _ \<Rightarrow> {})"



text \<open>
  One possible library parser, with the strict grammar of the interpreters before 3.11
  for a full date and time: \<^verbatim>\<open>YYYY-MM-DD\<close>, one separator, \<^verbatim>\<open>HH:MM:SS\<close>, an optional
  fraction of exactly three or six digits, an optional offset \<^verbatim>\<open>+HH:MM\<close> or \<^verbatim>\<open>-HH:MM\<close>.
  It serves as the parser of the examples.
\<close>

definition parse_num :: "string \<Rightarrow> nat option" where
  "parse_num s = (if s \<noteq> [] \<and> list_all is_digit s then Some (digits_value s) else None)"

definition days_in_month :: "nat \<Rightarrow> nat \<Rightarrow> nat" where
  "days_in_month y m =
     (if m = 2 then (if y mod 4 = 0 \<and> (y mod 100 \<noteq> 0 \<or> y mod 400 = 0) then 29 else 28)
      else if m \<in> {4, 6, 9, 11} then 30 else 31)"

definition strict_fraction :: "string \<Rightarrow> nat option" where
  "strict_fraction f =
     (case f of
        [] \<Rightarrow> Some 0
      | c # ds \<Rightarrow>
          if c \<noteq> CHR ''.'' then None
          else if length ds = 6 then parse_num ds
          else if length ds = 3 then map_option (\<lambda>n. n * 1000) (parse_num ds)
          else None)"

definition strict_offset :: "string \<Rightarrow> int option option" where
  "strict_offset z =
     (case z of
        [] \<Rightarrow> Some None
      | c # body \<Rightarrow>
          if length body = 5 \<and> body ! 2 = CHR '':'' then
            (case (parse_num (take 2 body), parse_num (drop 3 body)) of
               (Some h, Some m) \<Rightarrow>
                 if h < 24 \<and> m < 60
                 then Some (Some ((if c = CHR ''-'' then - 1 else 1) * int (h * 3600 + m * 60)))
                 else None
             | _ \<Rightarrow> None)
          else None)"

definition strict_fromisoformat :: "string \<Rightarrow> datetime option" where
  "strict_fromisoformat s =
     (if length s < 19 \<or> s ! 4 \<noteq> CHR ''-'' \<or> s ! 7 \<noteq> CHR ''-'' \<or> s ! 13 \<noteq> CHR '':'' \<or> s ! 16 \<noteq> CHR '':''
      then None
      else
        let rest = drop 19 s;
            f = takeWhile (\<lambda>c. c \<noteq> CHR ''+'' \<and> c \<noteq> CHR ''-'') rest;
            z = dropWhile (\<lambda>c. c \<noteq> CHR ''+'' \<and> c \<noteq> CHR ''-'') rest
        in case (parse_num (take 4 s), parse_num (take 2 (drop 5 s)), parse_num (take 2 (drop 8 s)),
                 parse_num (take 2 (drop 11 s)), parse_num (take 2 (drop 14 s)), parse_num (take 2 (drop 17 s)),
                 strict_fraction f, strict_offset z) of
             (Some y, Some mo, Some d, Some h, Some mi, Some se, Some us, Some off) \<Rightarrow>
               if 1 \<le> y \<and> 1 \<le> mo \<and> mo \<le> 12 \<and> 1 \<le> d \<and> d \<le> days_in_month y mo
                  \<and> h < 24 \<and> mi < 60 \<and> se < 60
               then Some \<lparr>year = y, month = mo, day = d, hour = h, minute = mi, second = se,
                          microsecond = us, tzinfo = off\<rparr>
               else None
           | _ \<Rightarrow> None)"




text \<open>
  The mean and the sample deviation (\<^verbatim>\<open>ddof=1\<close>) in exact arithmetic, \<^verbatim>\<open>NaN\<close> on no
  value and on fewer than two values. They are the statistics of the examples only:
  the floating-point results agree with them where no step rounds, as on the example
  columns below, whose values are small integers, equal within a column.
\<close>

definition exact_mean :: "real list \<Rightarrow> real option" where
  "exact_mean vs = (if vs = [] then None else Some (sum_list vs / real (length vs)))"

definition exact_std :: "real list \<Rightarrow> real option" where
  "exact_std vs =
     (if length vs < 2 then None
      else let m = sum_list vs / real (length vs)
           in Some (sqrt (sum_list (map (\<lambda>v. (v - m)\<^sup>2) vs) / real (length vs - 1))))"

definition exact_stats :: series_ops where
  "exact_stats = \<lparr>series_mean = exact_mean, series_std = exact_std\<rparr>"

text \<open>Example rows, a source frame and collections.\<close>

definition ex_t0 :: datetime where
  "ex_t0 = \<lparr>year = 2021, month = 10, day = 21, hour = 9, minute = 30, second = 0,
            microsecond = 0, tzinfo = None\<rparr>"

definition ex_t1 :: datetime where
  "ex_t1 = \<lparr>year = 2021, month = 12, day = 16, hour = 10, minute = 0, second = 0,
            microsecond = 0, tzinfo = None\<rparr>"

definition ex_row_a :: observation where
  "ex_row_a = \<lparr>timestamp = Some ex_t1, latitude = Some 1, longitude = Some 2,
               temperature = Some 20, salinity = Some 30, odo = Some 5\<rparr>"

definition ex_row_b :: observation where
  "ex_row_b = \<lparr>timestamp = Some ex_t0, latitude = Some 1, longitude = Some 2,
               temperature = Some 20, salinity = Some 30, odo = Some 5\<rparr>"

definition ex_row_c :: observation where
  "ex_row_c = \<lparr>timestamp = Some ex_t0, latitude = Some 1, longitude = Some 2,
               temperature = None, salinity = Some 30, odo = Some 5\<rparr>"

definition ex_frame :: frame where
  "ex_frame = \<lparr>columns = required_cols, rows = [ex_row_a, ex_row_c, ex_row_b]\<rparr>"

definition ex_sorted :: frame where
  "ex_sorted = \<lparr>columns = required_cols, rows = [ex_row_b, ex_row_a]\<rparr>"

definition ex_state :: db_state where
  "ex_state = \<lparr>original_rows = 3, removed_outliers = 1, remaining_rows = 2,
               collection = [ex_row_b, ex_row_a]\<rparr>"

definition ex_temp_row :: "real \<Rightarrow> observation" where
  "ex_temp_row v = ex_row_a\<lparr>temperature := Some v\<rparr>"

definition ex_temps :: "observation list" where
  "ex_temps = map ex_temp_row [0, 0, 0, 0, 100]"

definition ex_item :: pyval where
  "ex_item = PDict [(''timestamp'', PStr ''2021-12-16T10:00:00''), (''latitude'', PFloat 1),
                    (''longitude'', PFloat 2), (''temperature'', PFloat 20),
                    (''salinity'', PFloat 30), (''odo'', PFloat 5)]"

text \<open>The query without any bound, and a collection of two rows.\<close>

definition ex_all :: mongo_query where
  "ex_all = \<lparr>ts_gte = None, ts_lte = None, temp_gte = None, temp_lte = None,
             sal_gte = None, sal_lte = None, odo_gte = None, odo_lte = None\<rparr>"

definition ex_pair :: "observation list" where "ex_pair = [ex_row_a, ex_row_b]"

text \<open>The record of the flagged row of \<open>ex_temps\<close>, and four rows of one temperature.\<close>

definition ex_flagged :: pyval where
  "ex_flagged = PDict [(''timestamp'', PStr ''2021-12-16T10:00:00''), (''latitude'', PFloat 1),
                       (''longitude'', PFloat 2), (''temperature'', PFloat 100)]"

definition ex_fives :: "observation list" where
  "ex_fives = map ex_temp_row [5, 5, 5, 5]"

section \<open>Evaluation of the examples\<close>

lemmas loader_defs = init_def initial_state_def load_and_standardize_data_def pd_concat_def
  required_cols_def reindex_def dropna_required_def row_complete_def
  sort_values_timestamp_def pd_ts_key_def dt_key_def clean_outliers_def frame_empty_def
  numeric_cols_def col_stats_def col_val_def non_null_def exact_stats_def exact_mean_def exact_std_def outlier_mask_def
  z_score_def exceeds_def insert_data_def Let_def

lemmas ex_defs = ex_frame_def ex_row_a_def ex_row_b_def ex_row_c_def ex_t0_def ex_t1_def
  ex_state_def ex_sorted_def

lemma ex_load:
  "load_and_standardize_data [ex_frame] initial_state
   = Inr (initial_state\<lparr>original_rows := 3\<rparr>, ex_sorted)"
  by (simp add: loader_defs ex_defs)

lemma ex_clean:
  "clean_outliers exact_stats (initial_state\<lparr>original_rows := 3\<rparr>) ex_sorted 3
   = (ex_state\<lparr>collection := []\<rparr>, ex_sorted)"
  by (simp add: loader_defs ex_defs)

lemma ex_init: "init exact_stats [ex_frame] initial_state = Inr ex_state"
  by (simp add: loader_defs ex_defs)

section \<open>The stored data set\<close>

lemma load_rows:
  assumes "load_and_standardize_data all_data st = Inr (st1, df)"
  shows "(\<forall>r \<in> set (rows df). row_complete r) \<and> sorted (map pd_ts_key (rows df))"
  using assms
  by (auto simp: load_and_standardize_data_def dropna_required_def sort_values_timestamp_def Let_def
      split: if_splits sum.splits)

lemma load_state:
  assumes "load_and_standardize_data all_data st = Inr (st1, df)"
  shows "collection st1 = collection st"
  using assms
  by (auto simp: load_and_standardize_data_def Let_def split: if_splits sum.splits)

lemma clean_rows:
  assumes "clean_outliers num st1 df thr = (st2, df2)"
  shows "\<exists>P. rows df2 = filter P (rows df)"
proof (cases "frame_empty df")
  case True
  with assms have "rows df2 = filter (\<lambda>_. True) (rows df)" by (simp add: clean_outliers_def)
  then show ?thesis by blast
next
  case False
  with assms show ?thesis by (auto simp: clean_outliers_def Let_def)
qed

lemma clean_state:
  assumes "clean_outliers num st1 df thr = (st2, df2)"
  shows "collection st2 = collection st1"
  using assms by (auto simp: clean_outliers_def Let_def split: if_splits)

lemma init_rows:
  assumes "init num all_data initial_state = Inr st"
  shows "(\<forall>r \<in> set (collection st). row_complete r) \<and> sorted (map pd_ts_key (collection st))"
proof -
  from assms obtain st1 df st2 df2 where
    l: "load_and_standardize_data all_data initial_state = Inr (st1, df)"
    and c: "clean_outliers num st1 df 3 = (st2, df2)"
    and s: "st = insert_data st2 df2"
    by (auto simp: init_def initial_state_def split: sum.splits prod.splits)
  have c0: "collection st2 = []"
    using load_state[OF l] clean_state[OF c] by (simp add: initial_state_def)
  from clean_rows[OF c] obtain P where P: "rows df2 = filter P (rows df)" by blast
  have "collection st = [] \<or> collection st = rows df2"
    using s c0 by (simp add: insert_data_def)
  moreover have "(\<forall>r \<in> set (rows df2). row_complete r) \<and> sorted (map pd_ts_key (rows df2))"
    using load_rows[OF l] P by (auto simp: sorted_filter)
  ultimately show ?thesis by auto
qed

lemma complete_sorted_timestamps:
  assumes "\<forall>r \<in> set xs. row_complete r" and "sorted (map pd_ts_key xs)"
  shows "\<exists>ds. map timestamp xs = map Some ds \<and> sorted (map dt_key ds)"
proof (intro exI conjI)
  show "map timestamp xs = map Some (map (\<lambda>r. the (timestamp r)) xs)"
    using assms(1) by (auto simp: row_complete_def)
  have k: "pd_ts_key r = (0, dt_key (the (timestamp r)))" if "r \<in> set xs" for r
    using assms(1) that by (auto simp: row_complete_def pd_ts_key_def)
  have "sorted_wrt (\<lambda>a b. pd_ts_key a \<le> pd_ts_key b) xs"
    using assms(2) by (simp add: sorted_map)
  then have "sorted_wrt (\<lambda>a b. dt_key (the (timestamp a)) \<le> dt_key (the (timestamp b))) xs"
    by (rule sorted_wrt_mono_rel[rotated]) (simp add: k)
  then show "sorted (map dt_key (map (\<lambda>r. the (timestamp r)) xs))"
    by (simp add: sorted_map)
qed

lemma serve_state: "fst (serve num F fl st rqs) = st"
proof (induction rqs arbitrary: st)
  case Nil
  show ?case by simp
next
  case (Cons rq rqs)
  have "fst (serve num F fl (fst (handle num F fl st rq)) rqs) = fst (handle num F fl st rq)"
    by (rule Cons.IH)
  then show ?case by (auto simp add: handle_def split: prod.splits)
qed

text \<open>
  C2. After the build from any list of source frames, started on the empty collection,
  every stored observation has its six fields present, the stored timestamps are in
  non-decreasing order, and serving any sequence of requests leaves the database state,
  hence the stored data set, as the build left it.
\<close>

theorem store_invariant:
  assumes "init num all_data initial_state = Inr st"
  shows "(\<forall>r \<in> set (collection st). row_complete r)
     \<and> (\<exists>ds. map timestamp (collection st) = map Some ds \<and> sorted (map dt_key ds))
     \<and> (\<forall>rqs. fst (serve num fromisoformat py_float st rqs) = st)"
  using init_rows[OF assms] complete_sorted_timestamps[of "collection st"] serve_state
  by blast

theorem store_invariant_witness:
  "init exact_stats [ex_frame] initial_state = Inr ex_state
   \<and> collection ex_state = [ex_row_b, ex_row_a]
   \<and> list_all row_complete (collection ex_state)
   \<and> (\<exists>ds. map timestamp (collection ex_state) = map Some ds \<and> sorted (map dt_key ds))
   \<and> (\<forall>rqs. fst (serve exact_stats (\<lambda>s. None) (\<lambda>s. None) ex_state rqs) = ex_state)"
proof -
  note inv = store_invariant[OF ex_init, of "\<lambda>s. None" "\<lambda>s. None"]
  from inv have "list_all row_complete (collection ex_state)"
    by (simp add: list_all_iff)
  moreover have "collection ex_state = [ex_row_b, ex_row_a]"
    by (simp add: ex_state_def)
  ultimately show ?thesis using inv ex_init by blast
qed

section \<open>The report counters\<close>

text \<open>
  C3 as stated fails. On a source frame of three rows, one of them without a temperature,
  the z-score pass receives two rows and returns both, while the counters report three
  rows before and one row removed.
\<close>

theorem cleaning_counters_counterexample:
  "load_and_standardize_data [ex_frame] initial_state
     = Inr (initial_state\<lparr>original_rows := 3\<rparr>, ex_sorted)
   \<and> clean_outliers exact_stats (initial_state\<lparr>original_rows := 3\<rparr>) ex_sorted 3
     = (ex_state\<lparr>collection := []\<rparr>, ex_sorted)
   \<and> length (rows ex_sorted) = 2
   \<and> original_rows (ex_state\<lparr>collection := []\<rparr>) = 3
   \<and> removed_outliers (ex_state\<lparr>collection := []\<rparr>) = 1
   \<and> remaining_rows (ex_state\<lparr>collection := []\<rparr>) = 2"
  using ex_load ex_clean by (simp add: ex_state_def ex_sorted_def)

text \<open>
  C3, amended. When the load yields at least one complete row, the counter of rows
  before is the number of rows of the concatenated sources, before the rows with a
  missing required field are dropped; the counter of remaining rows is the number of
  rows the z-score pass returns; the counter of removed rows is their difference, the
  rows dropped for a missing field plus the rows removed by the z-score threshold.
\<close>

theorem cleaning_counters:
  assumes "all_data \<noteq> []"
    and "load_and_standardize_data all_data st = Inr (st1, df)"
    and "rows df \<noteq> []"
    and "clean_outliers num st1 df thr = (st2, df2)"
  shows "original_rows st2 = int (length (rows (pd_concat all_data)))
     \<and> remaining_rows st2 = int (length (rows df2))
     \<and> removed_outliers st2 =
         (int (length (rows (pd_concat all_data))) - int (length (rows df)))
         + (int (length (rows df)) - int (length (rows df2)))"
proof -
  have cols: "columns df \<noteq> []" and o: "original_rows st1 = int (length (rows (pd_concat all_data)))"
    using assms(1,2)
    by (auto simp: load_and_standardize_data_def dropna_required_def sort_values_timestamp_def
        required_cols_def Let_def split: if_splits sum.splits)
  then have "\<not> frame_empty df" using assms(3) by (simp add: frame_empty_def)
  then show ?thesis using assms(4) o by (auto simp: clean_outliers_def Let_def)
qed

theorem cleaning_counters_witness:
  "[ex_frame] \<noteq> []
   \<and> load_and_standardize_data [ex_frame] initial_state
       = Inr (initial_state\<lparr>original_rows := 3\<rparr>, ex_sorted)
   \<and> rows ex_sorted \<noteq> []
   \<and> clean_outliers exact_stats (initial_state\<lparr>original_rows := 3\<rparr>) ex_sorted 3
       = (ex_state\<lparr>collection := []\<rparr>, ex_sorted)
   \<and> original_rows (ex_state\<lparr>collection := []\<rparr>) = int (length (rows (pd_concat [ex_frame])))
   \<and> remaining_rows (ex_state\<lparr>collection := []\<rparr>) = int (length (rows ex_sorted))
   \<and> removed_outliers (ex_state\<lparr>collection := []\<rparr>) =
         (int (length (rows (pd_concat [ex_frame]))) - int (length (rows ex_sorted)))
         + (int (length (rows ex_sorted)) - int (length (rows ex_sorted)))"
proof -
  have r: "rows ex_sorted \<noteq> []" by (simp add: ex_sorted_def)
  show ?thesis
    using cleaning_counters[OF _ ex_load r ex_clean] ex_load ex_clean r by simp
qed

section \<open>The observations endpoint\<close>

lemma get_observations_ok:
  assumes "build_mongo_query F fl a = Inr q"
    and "arg_int a ''limit'' 100 = Some l" and "arg_int a ''skip'' 0 = Some s"
    and "0 \<le> l" and "0 \<le> s"
  shows "get_observations F fl (Some coll) a =
    Response 200 (PDict [(''count'', PInt (int (count_documents coll q))),
      (''items'', PList (map observation_item (find_sorted coll q (nat s) (nat (min l 1000)))))])"
  using assms by (simp add: get_observations_def Let_def)

lemma time_bound_upd:
  "k \<noteq> ''limit'' \<Longrightarrow> k \<noteq> ''skip'' \<Longrightarrow>
   time_bound F (a(''limit'' \<mapsto> x, ''skip'' \<mapsto> y)) k = time_bound F a k"
  by (simp add: time_bound_def cong: option.case_cong)

lemma numeric_bounds_upd:
  "k1 \<noteq> ''limit'' \<Longrightarrow> k1 \<noteq> ''skip'' \<Longrightarrow> k2 \<noteq> ''limit'' \<Longrightarrow> k2 \<noteq> ''skip'' \<Longrightarrow>
   numeric_bounds fl (a(''limit'' \<mapsto> x, ''skip'' \<mapsto> y)) k1 k2 = numeric_bounds fl a k1 k2"
  by (simp add: numeric_bounds_def Let_def cong: option.case_cong)

lemma build_ignores_paging:
  "build_mongo_query F fl (a(''limit'' \<mapsto> x, ''skip'' \<mapsto> y)) = build_mongo_query F fl a"
  by (simp add: build_mongo_query_def time_bound_upd numeric_bounds_upd cong: sum.case_cong)

lemma arg_int_upd:
  "arg_int (a(''limit'' \<mapsto> x, ''skip'' \<mapsto> y)) ''limit'' d = py_int x"
  "arg_int (a(''limit'' \<mapsto> x, ''skip'' \<mapsto> y)) ''skip'' d = py_int y"
  by (simp_all add: arg_int_def)




lemma find_sorted_length:
  "length (find_sorted coll q 0 n) = (if n = 0 then count_documents coll q else min (count_documents coll q) n)"
  by (simp add: find_sorted_def count_documents_def Let_def)

section \<open>Count and pages\<close>

text \<open>
  C4, amended. For a request whose \<^verbatim>\<open>limit\<close> parses as the number of matching
  observations and whose \<^verbatim>\<open>skip\<close> is \<open>0\<close>, the response reports that count and
  returns as many items as the count capped at \<open>1000\<close>; the number of items equals the
  count whenever the count is at most \<open>1000\<close>.
\<close>

theorem count_equals_capped_page:
  assumes "build_mongo_query F fl a = Inr q"
    and "arg_int a ''limit'' 100 = Some (int (count_documents coll q))"
    and "arg_int a ''skip'' 0 = Some 0"
  shows "\<exists>items. get_observations F fl (Some coll) a =
           Response 200 (PDict [(''count'', PInt (int (count_documents coll q))), (''items'', PList items)])
         \<and> length items = min (count_documents coll q) 1000
         \<and> (count_documents coll q \<le> 1000 \<longrightarrow> length items = count_documents coll q)"
proof -
  let ?n = "count_documents coll q"
  have "nat (min (int ?n) 1000) = min ?n 1000" by simp
  then show ?thesis
    using get_observations_ok[OF assms(1,2,3)]
    by (auto simp: find_sorted_length)
qed

lemma paging_concat:
  assumes "0 < L"
  shows "take 1000 (take (min L 1000) xs @ take (min L 1000) (drop L xs)) = take (min (2 * L) 1000) xs"
proof (cases "L \<le> 1000")
  case True
  then have "take (min L 1000) xs @ take (min L 1000) (drop L xs) = take (2 * L) xs"
    by (simp add: min_def mult_2 take_add)
  then show ?thesis by (simp add: min.commute)
next
  case False
  then have m: "min L 1000 = 1000" "min (2 * L) 1000 = 1000" by simp_all
  show ?thesis
  proof (cases "1000 \<le> length xs")
    case True
    then show ?thesis by (simp add: m)
  next
    case False
    with \<open>\<not> L \<le> 1000\<close> show ?thesis by (simp add: m)
  qed
qed

lemma paging_concat_small:
  assumes "2 * L \<le> 1000"
  shows "take (min L 1000) xs @ take (min L 1000) (drop L xs) = take (min (2 * L) 1000) xs"
  using assms by (simp add: min_def mult_2 take_add)

lemmas int_defs = py_int_def strip_def py_space_def is_digit_def digits_value_def digit_val_def

lemma build_no_filter:
  assumes "a ''start'' = None" "a ''end'' = None" "a ''min_temp'' = None" "a ''max_temp'' = None"
    "a ''min_sal'' = None" "a ''max_sal'' = None" "a ''min_odo'' = None" "a ''max_odo'' = None"
  shows "build_mongo_query F fl a = Inr ex_all"
  using assms by (simp add: build_mongo_query_def time_bound_def numeric_bounds_def ex_all_def)

lemma build_empty: "build_mongo_query F fl Map.empty = Inr ex_all"
  by (rule build_no_filter) simp_all

lemma matches_all: "matches ex_all r"
  by (simp add: matches_def in_range_def ex_all_def)

lemma filter_all: "filter (matches ex_all) xs = xs"
  by (simp add: matches_all)

lemma sort_replicate: "sort_key f (replicate n x) = replicate n x"
  by (rule sort_key_id_if_sorted) simp

lemma digits_2: "digits 2 n = [''0123456789'' ! (n div 10 mod 10), ''0123456789'' ! (n mod 10)]"
  by (simp add: numeral_2_eq_2)

lemma four: "(4::nat) = Suc (Suc (Suc (Suc 0)))" by simp

lemma digits_4: "digits 4 n = [''0123456789'' ! (n div 10 div 10 div 10 mod 10), ''0123456789'' ! (n div 10 div 10 mod 10),
    ''0123456789'' ! (n div 10 mod 10), ''0123456789'' ! (n mod 10)]"
  unfolding four by simp

lemma ex_item_a: "observation_item ex_row_a = ex_item"
  by (simp add: observation_item_def convert_decimals_to_float_def doc_of_def opt_float_def
      isoformat_def ex_row_a_def ex_t1_def ex_item_def digits_2 digits_4)

lemma observations_replicate:
  assumes "py_int ls = Some l" "py_int ss = Some s" "0 < l" "0 \<le> s"
  shows "get_observations F fl (Some (replicate n r)) (Map.empty(''limit'' \<mapsto> ls, ''skip'' \<mapsto> ss))
    = Response 200 (PDict [(''count'', PInt (int n)),
        (''items'', PList (replicate (min (n - nat s) (nat (min l 1000))) (observation_item r)))])"
proof -
  let ?a = "Map.empty(''limit'' \<mapsto> ls, ''skip'' \<mapsto> ss)"
  have b: "build_mongo_query F fl ?a = Inr ex_all"
    by (simp only: build_ignores_paging build_empty)
  have l: "arg_int ?a ''limit'' 100 = Some l" and s: "arg_int ?a ''skip'' 0 = Some s"
    using assms(1,2) by (simp_all add: arg_int_upd)
  have "0 \<le> l" using assms(3) by simp
  note g = get_observations_ok[OF b l s this assms(4), of "replicate n r"]
  have pos: "nat (min l 1000) \<noteq> 0" using assms(3) by simp
  have f: "find_sorted (replicate n r) ex_all (nat s) (nat (min l 1000))
           = replicate (min (n - nat s) (nat (min l 1000))) r"
    using pos by (simp add: find_sorted_def filter_all sort_replicate Let_def min.commute)
  show ?thesis
    unfolding g f by (simp add: count_documents_def filter_all)
qed

text \<open>
  C4 as stated fails. With \<open>1001\<close> matching observations the count is \<open>1001\<close> and a
  request with \<^verbatim>\<open>limit=1001\<close> returns \<open>1000\<close> items.
\<close>

theorem count_page_counterexample:
  "build_mongo_query (\<lambda>s. None) (\<lambda>s. None) [''limit'' \<mapsto> ''1001'', ''skip'' \<mapsto> ''0''] = Inr ex_all
   \<and> count_documents (replicate 1001 ex_row_a) ex_all = 1001
   \<and> py_int ''1001'' = Some 1001
   \<and> get_observations (\<lambda>s. None) (\<lambda>s. None) (Some (replicate 1001 ex_row_a))
        [''limit'' \<mapsto> ''1001'', ''skip'' \<mapsto> ''0'']
      = Response 200 (PDict [(''count'', PInt 1001), (''items'', PList (replicate 1000 ex_item))])
   \<and> length (replicate 1000 ex_item) = 1000"
proof -
  have p: "py_int ''1001'' = Some 1001" "py_int ''0'' = Some 0" by (simp_all add: int_defs)
  have b: "build_mongo_query (\<lambda>s. None) (\<lambda>s. None) [''limit'' \<mapsto> ''1001'', ''skip'' \<mapsto> ''0''] = Inr ex_all"
    by (simp only: build_ignores_paging build_empty)
  have c: "count_documents (replicate 1001 ex_row_a) ex_all = 1001"
    by (simp add: count_documents_def filter_all)
  have g: "get_observations (\<lambda>s. None) (\<lambda>s. None) (Some (replicate 1001 ex_row_a))
        [''limit'' \<mapsto> ''1001'', ''skip'' \<mapsto> ''0'']
      = Response 200 (PDict [(''count'', PInt 1001), (''items'', PList (replicate 1000 ex_item))])"
    using observations_replicate[OF p, of "\<lambda>s. None" "\<lambda>s. None" 1001 ex_row_a]
    by (simp add: ex_item_a)
  show ?thesis using p(1) b c g by simp
qed

lemma count_pair: "count_documents ex_pair ex_all = 2"
  by (simp add: count_documents_def ex_pair_def matches_all)

theorem count_equals_capped_page_witness:
  "build_mongo_query (\<lambda>s. None) (\<lambda>s. None) [''limit'' \<mapsto> ''2'', ''skip'' \<mapsto> ''0''] = Inr ex_all
   \<and> arg_int [''limit'' \<mapsto> ''2'', ''skip'' \<mapsto> ''0''] ''limit'' 100 = Some (int (count_documents ex_pair ex_all))
   \<and> arg_int [''limit'' \<mapsto> ''2'', ''skip'' \<mapsto> ''0''] ''skip'' 0 = Some 0
   \<and> count_documents ex_pair ex_all = 2
   \<and> (\<exists>items. get_observations (\<lambda>s. None) (\<lambda>s. None) (Some ex_pair) [''limit'' \<mapsto> ''2'', ''skip'' \<mapsto> ''0'']
           = Response 200 (PDict [(''count'', PInt 2), (''items'', PList items)])
         \<and> length items = 2)"
proof -
  let ?a = "[''limit'' \<mapsto> ''2'', ''skip'' \<mapsto> ''0'']"
  have b: "build_mongo_query (\<lambda>s. None) (\<lambda>s. None) ?a = Inr ex_all"
    by (simp only: build_ignores_paging build_empty)
  have l: "arg_int ?a ''limit'' 100 = Some (int (count_documents ex_pair ex_all))"
    by (simp add: arg_int_upd count_pair int_defs)
  have s: "arg_int ?a ''skip'' 0 = Some 0"
    by (simp add: arg_int_upd int_defs)
  from count_equals_capped_page[OF b l s] b l s show ?thesis
    by (simp add: count_pair)
qed

text \<open>
  C5, amended. For one filter and \<open>L > 0\<close>, the page of \<open>skip = 0\<close> followed by the
  page of \<open>skip = L\<close>, both with \<open>limit = L\<close>, and truncated to the first \<open>1000\<close>
  elements, is the page of \<open>skip = 0\<close> and \<open>limit = 2L\<close>, element for element; when
  \<open>2L \<le> 1000\<close> no truncation is needed.
\<close>

theorem paging_concatenation:
  assumes "build_mongo_query F fl a = Inr q"
    and "py_int sL = Some (int L)" and "py_int s0 = Some 0" and "py_int s2L = Some (int (2 * L))"
    and "0 < L"
  shows "\<exists>i1 i2 i3.
      response_items (get_observations F fl (Some coll) (a(''limit'' \<mapsto> sL, ''skip'' \<mapsto> s0))) = Some i1
    \<and> response_items (get_observations F fl (Some coll) (a(''limit'' \<mapsto> sL, ''skip'' \<mapsto> sL))) = Some i2
    \<and> response_items (get_observations F fl (Some coll) (a(''limit'' \<mapsto> s2L, ''skip'' \<mapsto> s0))) = Some i3
    \<and> take 1000 (i1 @ i2) = i3
    \<and> (2 * L \<le> 1000 \<longrightarrow> i1 @ i2 = i3)"
proof -
  let ?xs = "sort_key mongo_ts_key (filter (matches q) coll)"
  let ?m = "min L 1000"
  have page: "response_items (get_observations F fl (Some coll) (a(''limit'' \<mapsto> sl, ''skip'' \<mapsto> ss)))
      = Some (map observation_item (take (min l 1000) (drop s ?xs)))"
    if "py_int sl = Some (int l)" "py_int ss = Some (int s)" "0 < l" for sl ss l s
  proof -
    have b: "build_mongo_query F fl (a(''limit'' \<mapsto> sl, ''skip'' \<mapsto> ss)) = Inr q"
      by (simp only: build_ignores_paging assms(1))
    have n: "nat (min (int l) 1000) = min l 1000" by simp
    have "get_observations F fl (Some coll) (a(''limit'' \<mapsto> sl, ''skip'' \<mapsto> ss)) =
      Response 200 (PDict [(''count'', PInt (int (count_documents coll q))),
        (''items'', PList (map observation_item (find_sorted coll q (nat (int s)) (nat (min (int l) 1000)))))])"
      by (rule get_observations_ok[OF b]) (simp_all add: arg_int_upd that)
    moreover have "min l 1000 \<noteq> 0" using that(3) by simp
    ultimately show ?thesis
      by (simp add: response_items_def find_sorted_def Let_def n)
  qed
  have z: "py_int s0 = Some (int 0)" using assms(3) by simp
  have L2: "0 < 2 * L" using assms(5) by simp
  have p1: "response_items (get_observations F fl (Some coll) (a(''limit'' \<mapsto> sL, ''skip'' \<mapsto> s0)))
      = Some (map observation_item (take ?m ?xs))"
    using page[OF assms(2) z assms(5)] by simp
  have p2: "response_items (get_observations F fl (Some coll) (a(''limit'' \<mapsto> sL, ''skip'' \<mapsto> sL)))
      = Some (map observation_item (take ?m (drop L ?xs)))"
    using page[OF assms(2) assms(2) assms(5)] by simp
  have p3: "response_items (get_observations F fl (Some coll) (a(''limit'' \<mapsto> s2L, ''skip'' \<mapsto> s0)))
      = Some (map observation_item (take (min (2 * L) 1000) ?xs))"
    using page[OF assms(4) z L2] by simp
  have c1: "take 1000 (map observation_item (take ?m ?xs) @ map observation_item (take ?m (drop L ?xs)))
      = map observation_item (take (min (2 * L) 1000) ?xs)"
    using paging_concat[OF assms(5), of ?xs] by (simp only: map_append[symmetric] take_map)
  have c2: "2 * L \<le> 1000 \<longrightarrow>
      map observation_item (take ?m ?xs) @ map observation_item (take ?m (drop L ?xs))
      = map observation_item (take (min (2 * L) 1000) ?xs)"
    using paging_concat_small[of L ?xs] by (simp only: map_append[symmetric]) simp
  show ?thesis using p1 p2 p3 c1 c2 by blast
qed

theorem paging_concatenation_witness:
  "build_mongo_query (\<lambda>s. None) (\<lambda>s. None) Map.empty = Inr ex_all
   \<and> py_int ''1'' = Some (int 1) \<and> py_int ''0'' = Some 0 \<and> py_int ''2'' = Some (int (2 * 1))
   \<and> (0::nat) < 1
   \<and> (\<exists>i1 i2 i3.
        response_items (get_observations (\<lambda>s. None) (\<lambda>s. None) (Some ex_pair)
          [''limit'' \<mapsto> ''1'', ''skip'' \<mapsto> ''0'']) = Some i1
      \<and> response_items (get_observations (\<lambda>s. None) (\<lambda>s. None) (Some ex_pair)
          [''limit'' \<mapsto> ''1'', ''skip'' \<mapsto> ''1'']) = Some i2
      \<and> response_items (get_observations (\<lambda>s. None) (\<lambda>s. None) (Some ex_pair)
          [''limit'' \<mapsto> ''2'', ''skip'' \<mapsto> ''0'']) = Some i3
      \<and> take 1000 (i1 @ i2) = i3 \<and> i1 @ i2 = i3)"
proof -
  have b: "build_mongo_query (\<lambda>s. None) (\<lambda>s. None) Map.empty = Inr ex_all"
    by (rule build_empty)
  have p1: "py_int ''1'' = Some (int 1)" and p0: "py_int ''0'' = Some 0"
    and p2: "py_int ''2'' = Some (int (2 * 1))"
    by (simp_all add: int_defs)
  have pos: "(0::nat) < 1" by simp
  from paging_concatenation[OF b p1 p0 p2 pos, of ex_pair] b p1 p0 p2 show ?thesis
    by simp
qed

text \<open>
  C5 as stated fails. With \<open>1200\<close> matching observations and \<open>L = 600\<close> the two pages
  have \<open>600\<close> items each, \<open>1200\<close> together, and the page of limit \<open>1200\<close> has
  \<open>1000\<close>.
\<close>

theorem paging_concatenation_counterexample:
  "response_items (get_observations (\<lambda>s. None) (\<lambda>s. None) (Some (replicate 1200 ex_row_a))
      [''limit'' \<mapsto> ''600'', ''skip'' \<mapsto> ''0'']) = Some (replicate 600 ex_item)
   \<and> response_items (get_observations (\<lambda>s. None) (\<lambda>s. None) (Some (replicate 1200 ex_row_a))
      [''limit'' \<mapsto> ''600'', ''skip'' \<mapsto> ''600'']) = Some (replicate 600 ex_item)
   \<and> response_items (get_observations (\<lambda>s. None) (\<lambda>s. None) (Some (replicate 1200 ex_row_a))
      [''limit'' \<mapsto> ''1200'', ''skip'' \<mapsto> ''0'']) = Some (replicate 1000 ex_item)
   \<and> length (replicate 600 ex_item @ replicate 600 ex_item) = 1200
   \<and> length (replicate 1000 ex_item) = 1000
   \<and> replicate 600 ex_item @ replicate 600 ex_item \<noteq> replicate 1000 ex_item"
proof -
  have p: "py_int ''600'' = Some 600" "py_int ''0'' = Some 0" "py_int ''1200'' = Some 1200"
    by (simp_all add: int_defs)
  have r1: "response_items (get_observations (\<lambda>s. None) (\<lambda>s. None) (Some (replicate 1200 ex_row_a))
      [''limit'' \<mapsto> ''600'', ''skip'' \<mapsto> ''0'']) = Some (replicate 600 ex_item)"
    using observations_replicate[OF p(1) p(2), of "\<lambda>s. None" "\<lambda>s. None" 1200 ex_row_a]
    by (simp add: ex_item_a response_items_def)
  have r2: "response_items (get_observations (\<lambda>s. None) (\<lambda>s. None) (Some (replicate 1200 ex_row_a))
      [''limit'' \<mapsto> ''600'', ''skip'' \<mapsto> ''600'']) = Some (replicate 600 ex_item)"
    using observations_replicate[OF p(1) p(1), of "\<lambda>s. None" "\<lambda>s. None" 1200 ex_row_a]
    by (simp add: ex_item_a response_items_def)
  have r3: "response_items (get_observations (\<lambda>s. None) (\<lambda>s. None) (Some (replicate 1200 ex_row_a))
      [''limit'' \<mapsto> ''1200'', ''skip'' \<mapsto> ''0'']) = Some (replicate 1000 ex_item)"
    using observations_replicate[OF p(3) p(2), of "\<lambda>s. None" "\<lambda>s. None" 1200 ex_row_a]
    by (simp add: ex_item_a response_items_def)
  have ne: "replicate 600 ex_item @ replicate 600 ex_item \<noteq> replicate 1000 ex_item"
  proof
    assume "replicate 600 ex_item @ replicate 600 ex_item = replicate 1000 ex_item"
    then have "length (replicate 600 ex_item @ replicate 600 ex_item) = length (replicate 1000 ex_item)"
      by (rule arg_cong)
    then show False by simp
  qed
  show ?thesis using r1 r2 r3 ne by simp
qed

section \<open>Paging parameters\<close>



section \<open>The outliers endpoint\<close>

lemmas outlier_defs = find_outliers_def dropna_field_def field_values_def select_rows_def numeric_cols_def col_val_def non_null_def
  zscore_mask_def iqr_mask_def pd_quantile_def exact_stats_def exact_mean_def exact_std_def outliers_body_def
  outlier_record_def project_def doc_of_def opt_float_def convert_decimals_to_float_def
  isoformat_def digits_2 digits_4 error_body_def Let_def

lemma ex_outliers:
  "find_outliers exact_stats (\<lambda>s. None) (Some ex_temps) [''field'' \<mapsto> ''temperature'']
   = Response 200 (PDict [(''outliers'', PList [ex_flagged]), (''count'', PInt 1)])"
  by (simp add: outlier_defs ex_temps_def ex_temp_row_def ex_row_a_def ex_t1_def ex_flagged_def)

lemma ex_null_field_bogus:
  "find_outliers exact_stats (\<lambda>s. None) (Some [ex_row_c]) [''field'' \<mapsto> ''temperature'', ''method'' \<mapsto> ''bogus'']
   = Response 200 (PDict [(''outliers'', PList [])])"
  by (simp add: outlier_defs ex_row_c_def)

lemma ex_empty_bogus:
  "find_outliers exact_stats (\<lambda>s. None) (Some []) [''field'' \<mapsto> ''temperature'', ''method'' \<mapsto> ''bogus'']
   = Unhandled KeyError"
  by (simp add: outlier_defs)

lemma ex_bogus:
  "find_outliers exact_stats (\<lambda>s. None) (Some [ex_row_a]) [''field'' \<mapsto> ''temperature'', ''method'' \<mapsto> ''bogus'']
   = Response 400 (error_body ''Invalid outlier method. Use 'iqr' or 'zscore'.'')"
  by (simp add: outlier_defs ex_row_a_def)



lemma ex_state_outliers:
  "find_outliers exact_stats (\<lambda>s. None) (Some (collection ex_state)) [''field'' \<mapsto> ''temperature'']
   = Response 200 (PDict [(''outliers'', PList []), (''count'', PInt 0)])"
  by (simp add: outlier_defs ex_state_def ex_row_a_def ex_row_b_def)

lemma ex_fives_zscore:
  "find_outliers exact_stats (\<lambda>s. None) (Some ex_fives) [''field'' \<mapsto> ''temperature'', ''method'' \<mapsto> ''zscore'']
   = Response 200 (PDict [(''outliers'', PList []), (''count'', PInt 0)])"
  by (simp add: outlier_defs ex_fives_def ex_temp_row_def ex_row_a_def)

lemma outlier_record_keys:
  assumes "f \<in> set numeric_cols"
  shows "record_keys (outlier_record f r) = {f, ''timestamp'', ''latitude'', ''longitude''}"
  using assms
  by (auto simp: numeric_cols_def record_keys_def outlier_record_def project_def doc_of_def
      convert_decimals_to_float_def)

lemma find_outliers_success:
  assumes "find_outliers num fl (Some coll) a = Response 200 body"
  shows "\<exists>f flagged. a ''field'' = Some f \<and> f \<in> set numeric_cols \<and> set flagged \<subseteq> set coll
     \<and> (body = PDict [(''outliers'', PList [])] \<or> body = outliers_body (map (outlier_record f) flagged))"
proof -
  obtain f where f: "a ''field'' = Some f" "f \<in> set numeric_cols"
    using assms
    by (auto simp: find_outliers_def Let_def error_body_def split: option.splits if_splits)
  obtain k where k: "(case a ''k'' of
                 None \<Rightarrow> Some (if (case a ''method'' of None \<Rightarrow> ''iqr'' | Some m \<Rightarrow> m) = ''iqr'' then 3/2 else 3)
               | Some s \<Rightarrow> fl s) = Some (k::real)"
    using assms
    by (auto simp: find_outliers_def Let_def split: option.splits if_splits)
  let ?df = "dropna_field f coll"
  let ?vs = "field_values f ?df"
  have "body = PDict [(''outliers'', PList [])]
       \<or> body = outliers_body (map (outlier_record f) (select_rows (zscore_mask num ?vs k) f ?df))
       \<or> body = outliers_body (map (outlier_record f) (select_rows (iqr_mask ?vs k) f ?df))"
    using assms f k
    by (simp add: find_outliers_def Let_def split: if_splits)
  moreover have "set (select_rows m f ?df) \<subseteq> set coll" for m
    by (auto simp: select_rows_def dropna_field_def)
  ultimately show ?thesis using f by blast
qed

text \<open>
  C1, amended. In every successful response of the outliers endpoint, each record of
  the \<^verbatim>\<open>outliers\<close> list is the projection of a stored observation on four keys: the
  requested field, \<^verbatim>\<open>timestamp\<close>, \<^verbatim>\<open>latitude\<close> and \<^verbatim>\<open>longitude\<close>.
\<close>

theorem flagged_rows_projected:
  assumes "find_outliers num py_float (Some coll) a = Response 200 (PDict kvs)"
    and "map_of kvs ''outliers'' = Some (PList recs)"
  shows "\<exists>f. a ''field'' = Some f
     \<and> (\<forall>rec \<in> set recs. record_keys rec = {f, ''timestamp'', ''latitude'', ''longitude''}
           \<and> (\<exists>r \<in> set coll. rec = outlier_record f r))"
proof -
  from find_outliers_success[OF assms(1)] obtain f flagged where
    f: "a ''field'' = Some f" "f \<in> set numeric_cols" and sub: "set flagged \<subseteq> set coll"
    and b: "PDict kvs = PDict [(''outliers'', PList [])] \<or> PDict kvs = outliers_body (map (outlier_record f) flagged)"
    by blast
  from b assms(2) have "recs = [] \<or> recs = map (outlier_record f) flagged"
    by (auto simp: outliers_body_def)
  then have "\<forall>rec \<in> set recs. record_keys rec = {f, ''timestamp'', ''latitude'', ''longitude''}
           \<and> (\<exists>r \<in> set coll. rec = outlier_record f r)"
    using sub outlier_record_keys[OF f(2)] by auto blast
  with f(1) show ?thesis by blast
qed





section \<open>Outlier responses on a built store\<close>

lemma find_outliers_empty_store: "find_outliers num fl (Some []) a \<noteq> Response 200 body"
  by (auto simp: find_outliers_def Let_def error_body_def split: option.splits)

lemma find_outliers_counted:
  assumes "find_outliers num fl (Some coll) a = Response 200 body"
    and "a ''field'' = Some f" and "dropna_field f coll \<noteq> []"
  shows "\<exists>recs. body = outliers_body recs"
proof -
  obtain k where k: "(case a ''k'' of
                 None \<Rightarrow> Some (if (case a ''method'' of None \<Rightarrow> ''iqr'' | Some m \<Rightarrow> m) = ''iqr'' then 3/2 else 3)
               | Some s \<Rightarrow> fl s) = Some (k::real)"
    using assms(1)
    by (auto simp: find_outliers_def Let_def split: option.splits if_splits)
  let ?df = "dropna_field f coll"
  let ?vs = "field_values f ?df"
  have "body = outliers_body (map (outlier_record f) (select_rows (zscore_mask num ?vs k) f ?df))
       \<or> body = outliers_body (map (outlier_record f) (select_rows (iqr_mask ?vs k) f ?df))"
    using assms k
    by (simp add: find_outliers_def Let_def split: if_splits)
  then show ?thesis by blast
qed

lemma complete_dropna:
  assumes "\<forall>r \<in> set coll. row_complete r" and "f \<in> set numeric_cols"
  shows "dropna_field f coll = coll"
proof -
  have "col_val f r \<noteq> None" if "r \<in> set coll" for r
    using assms that by (auto simp: row_complete_def numeric_cols_def col_val_def)
  then show ?thesis by (simp add: dropna_field_def filter_id_conv)
qed

text \<open>
  C7. On every store that the build produces, every successful response of the
  outliers endpoint has a body of exactly the two keys \<^verbatim>\<open>outliers\<close> and \<^verbatim>\<open>count\<close>, the
  count being the number of records of the list. On such a store every row has every
  field, so the target field has no non-null value only on the empty store, where the
  handler raises before any response is built.
\<close>

theorem outliers_response_counted:
  assumes "init num all_data initial_state = Inr st"
    and "find_outliers num py_float (Some (collection st)) a = Response 200 body"
  shows "\<exists>recs. body = PDict [(''outliers'', PList recs), (''count'', PInt (int (length recs)))]"
proof -
  from find_outliers_success[OF assms(2)] obtain f where
    f: "a ''field'' = Some f" "f \<in> set numeric_cols" by blast
  have ne: "collection st \<noteq> []"
    using assms(2) find_outliers_empty_store[of num py_float a body] by auto
  have "\<forall>r \<in> set (collection st). row_complete r"
    using init_rows[OF assms(1)] by blast
  then have "dropna_field f (collection st) = collection st"
    using f(2) by (rule complete_dropna)
  with ne have "dropna_field f (collection st) \<noteq> []" by simp
  from find_outliers_counted[OF assms(2) f(1) this] show ?thesis
    by (auto simp: outliers_body_def)
qed

theorem outliers_response_counted_witness:
  "init exact_stats [ex_frame] initial_state = Inr ex_state
   \<and> find_outliers exact_stats (\<lambda>s. None) (Some (collection ex_state)) [''field'' \<mapsto> ''temperature'']
       = Response 200 (PDict [(''outliers'', PList []), (''count'', PInt 0)])
   \<and> (\<exists>recs. PDict [(''outliers'', PList []), (''count'', PInt 0)]
          = PDict [(''outliers'', PList recs), (''count'', PInt (int (length recs)))])"
  using outliers_response_counted[OF ex_init ex_state_outliers] ex_init ex_state_outliers
  by blast

section \<open>Timestamp bounds\<close>

















section \<open>Examples for the outliers endpoint and the bounds\<close>

lemmas parse_defs = strict_fromisoformat_def strict_fraction_def strict_offset_def parse_num_def
  digits_value_def digit_val_def is_digit_def days_in_month_def Let_def







text \<open>
  The strict parser does not know the UTC marker: under it a bound with the marker is
  rejected by the library in both forms.
\<close>

lemma strict_rejects_marker:
  "strict_fromisoformat ''2022-01-01T00:00:00.1234567Z'' = None"
  "strict_fromisoformat ''2022-01-01T00:00:00.123456Z'' = None"
  by (simp_all add: parse_defs)







text \<open>
  C1 as stated fails. For the five temperatures \<open>0, 0, 0, 0, 100\<close> and the default
  method and factor, the row of \<open>100\<close> is flagged and its record has four keys, without
  \<^verbatim>\<open>salinity\<close> and without \<^verbatim>\<open>odo\<close>.
\<close>

theorem flagged_rows_counterexample:
  "find_outliers exact_stats (\<lambda>s. None) (Some ex_temps) [''field'' \<mapsto> ''temperature'']
     = Response 200 (PDict [(''outliers'', PList [ex_flagged]), (''count'', PInt 1)])
   \<and> record_keys ex_flagged = {''timestamp'', ''latitude'', ''longitude'', ''temperature''}
   \<and> ''salinity'' \<notin> record_keys ex_flagged
   \<and> ''odo'' \<notin> record_keys ex_flagged"
  using ex_outliers by (simp add: record_keys_def ex_flagged_def)

theorem flagged_rows_projected_witness:
  "find_outliers exact_stats (\<lambda>s. None) (Some ex_temps) [''field'' \<mapsto> ''temperature'']
     = Response 200 (PDict [(''outliers'', PList [ex_flagged]), (''count'', PInt 1)])
   \<and> map_of [(''outliers'', PList [ex_flagged]), (''count'', PInt 1)] ''outliers'' = Some (PList [ex_flagged])
   \<and> (\<exists>f. [''field'' \<mapsto> ''temperature''] ''field'' = Some f
        \<and> record_keys ex_flagged = {f, ''timestamp'', ''latitude'', ''longitude''}
        \<and> (\<exists>r \<in> set ex_temps. ex_flagged = outlier_record f r))"
proof -
  have m: "map_of [(''outliers'', PList [ex_flagged]), (''count'', PInt 1)] ''outliers'' = Some (PList [ex_flagged])"
    by simp
  from flagged_rows_projected[OF ex_outliers m] ex_outliers m show ?thesis by simp
qed


text \<open>
  C6, the code at the failing inputs. With the method tag \<^verbatim>\<open>bogus\<close> and a collection
  whose only document has no temperature, the response is a success with an empty
  list; on the empty collection the handler raises \<^verbatim>\<open>KeyError\<close>. Neither is a
  validation failure.
\<close>

theorem outliers_invalid_method_accepted:
  "find_outliers exact_stats (\<lambda>s. None) (Some [ex_row_c]) [''field'' \<mapsto> ''temperature'', ''method'' \<mapsto> ''bogus'']
     = Response 200 (PDict [(''outliers'', PList [])])
   \<and> find_outliers exact_stats (\<lambda>s. None) (Some []) [''field'' \<mapsto> ''temperature'', ''method'' \<mapsto> ''bogus'']
     = Unhandled KeyError"
  using ex_null_field_bogus ex_empty_bogus by simp

lemma invalid_method_rejected:
  assumes "a ''method'' = Some m" and "m \<noteq> ''iqr''" and "m \<noteq> ''zscore''"
    and "a ''field'' = Some f" and "f \<in> set numeric_cols"
    and "a ''k'' = None \<or> (\<exists>s k. a ''k'' = Some s \<and> py_float s = Some k)"
    and "dropna_field f coll \<noteq> []"
  shows "find_outliers num py_float (Some coll) a
         = Response 400 (error_body ''Invalid outlier method. Use 'iqr' or 'zscore'.'')"
proof -
  have coll: "coll \<noteq> []" using assms(7) by (auto simp: dropna_field_def)
  obtain k where k: "(case a ''k'' of None \<Rightarrow> Some (if m = ''iqr'' then 3/2 else 3)
               | Some s \<Rightarrow> py_float s) = Some (k::real)"
    using assms(6) by auto
  show ?thesis
    using assms(1-5,7) coll by (simp add: find_outliers_def Let_def k)
qed

end
